theory Spec2Isabelle
  imports Complex_Main
begin

section \<open>Data model of the transaction editor\<close>

text \<open>
  The dialog of \<^verbatim>\<open>confirm_tx_dialog.py\<close> keeps its state in attributes of
  \<^verbatim>\<open>TxEditor\<close> and in two line edits, \<^verbatim>\<open>fee_e\<close> and \<^verbatim>\<open>feerate_e\<close>. The line edits
  are read through \<^verbatim>\<open>isVisible()\<close>, \<^verbatim>\<open>isModified()\<close>, \<^verbatim>\<open>hasFocus()\<close>, \<^verbatim>\<open>text()\<close> and
  \<^verbatim>\<open>get_amount()\<close>, and written through \<^verbatim>\<open>setModified\<close> and \<^verbatim>\<open>setAmount\<close>.

  What a line edit holds is one of three things: nothing (\<open>Blank\<close>, the text is empty
  and \<^verbatim>\<open>get_amount()\<close> is \<^verbatim>\<open>None\<close>), a text that is no amount (\<open>Junk\<close>, the text is
  not empty and \<^verbatim>\<open>get_amount()\<close> is \<^verbatim>\<open>None\<close>), or an amount.
\<close>

datatype 'a entry = Blank | Junk | Amount 'a

record 'a amount_edit =
  visible :: bool
  modified :: bool
  has_focus :: bool
  content :: "'a entry"

definition text_nonempty :: "'a amount_edit \<Rightarrow> bool" where
  "text_nonempty e = (content e \<noteq> Blank)"

definition get_amount :: "'a amount_edit \<Rightarrow> 'a option" where
  "get_amount e = (case content e of Amount a \<Rightarrow> Some a | _ \<Rightarrow> None)"

text \<open>
  Modelled from the spec: \<^verbatim>\<open>setAmount\<close> of the line edits, whose classes live in
  \<^verbatim>\<open>amountedit.py\<close>, which is not part of the source file. \<^verbatim>\<open>setAmount(x)\<close> writes
  the amount into the field and \<^verbatim>\<open>setAmount(None)\<close> clears the field to null. What else
  the widget does to itself when its text is replaced is left out, and nothing below reads
  the other attributes of a line edit after \<open>setAmount\<close>.
\<close>

definition setAmount :: "'a option \<Rightarrow> 'a amount_edit \<Rightarrow> 'a amount_edit" where
  "setAmount x e = e\<lparr>content := (case x of None \<Rightarrow> Blank | Some a \<Rightarrow> Amount a)\<rparr>"

definition setModified :: "bool \<Rightarrow> 'a amount_edit \<Rightarrow> 'a amount_edit" where
  "setModified b e = e\<lparr>modified := b\<rparr>"

text \<open>
  Modelled from the spec: the transaction object (\<^verbatim>\<open>PartialTransaction\<close> of
  \<^verbatim>\<open>electrum.transaction\<close>, not part of the source file), as far as the dialog uses it:
  \<^verbatim>\<open>estimated_size()\<close>, \<^verbatim>\<open>get_fee()\<close> (an \<^verbatim>\<open>Optional[int]\<close>) and the settable
  replace-by-fee flag that \<^verbatim>\<open>set_rbf\<close> writes.
\<close>

record tx =
  estimated_size :: nat
  get_fee :: "int option"
  rbf :: bool

definition set_rbf :: "bool \<Rightarrow> tx \<Rightarrow> tx" where
  "set_rbf b t = t\<lparr>rbf := b\<rparr>"

text \<open>
  The argument of \<^verbatim>\<open>make_tx\<close>: \<^verbatim>\<open>None\<close>, a literal fee, or
  \<^verbatim>\<open>partial(SimpleConfig.estimate_fee_for_feerate, amount)\<close> with the feerate in
  sat/kilobyte. The literal \<^verbatim>\<open>0\<close> of the fallback calls is \<open>Some (FixedFee 0)\<close>.
\<close>

datatype estimator = FixedFee int | FeeForFeerate rat

text \<open>
  What \<^verbatim>\<open>make_tx\<close> can raise. The three classes named in \<^verbatim>\<open>update_tx\<close> are unrelated
  exception classes; everything else is \<open>OtherException\<close>.
\<close>

datatype exn =
    NotEnoughFunds
  | NoDynamicFeeEstimates
  | InternalAddressCorruption string
  | OtherException string

text \<open>
  The dialog. \<open>world\<close> is whatever the \<^verbatim>\<open>make_tx\<close> callback closes over (the wallet):
  a call may change it, so two calls with the same argument need not agree.
  \<open>make_tx_calls\<close> records the arguments of the calls made so far and \<open>errors_shown\<close>
  the messages passed to \<^verbatim>\<open>main_window.show_error\<close>. \<open>feerounding_num\<close> is the number
  that \<^verbatim>\<open>set_feerounding_text\<close> formats into \<^verbatim>\<open>feerounding_text\<close>.
\<close>

record 'w dialog =
  tx :: "tx option"
  not_enough_funds :: bool
  no_dynfee_estimates :: bool
  needs_update :: bool
  fee_e :: "int amount_edit"
  feerate_e :: "rat amount_edit"
  slider_active :: bool
  size_label :: nat
  feerounding_num :: int
  feerounding_visible :: bool
  send_enabled :: bool
  timer_connected :: bool
  errors_shown :: "string list"
  world :: 'w
  make_tx_calls :: "estimator option list"

type_synonym 'w make_tx = "estimator option \<Rightarrow> 'w \<Rightarrow> (exn + tx) \<times> 'w"

section \<open>Which field is frozen, and the fee estimator\<close>

definition is_send_fee_frozen :: "'w dialog \<Rightarrow> bool" where
  "is_send_fee_frozen s =
     (visible (fee_e s) \<and> modified (fee_e s)
      \<and> (text_nonempty (fee_e s) \<or> has_focus (fee_e s)))"

definition is_send_feerate_frozen :: "'w dialog \<Rightarrow> bool" where
  "is_send_feerate_frozen s =
     (visible (feerate_e s) \<and> modified (feerate_e s)
      \<and> (text_nonempty (feerate_e s) \<or> has_focus (feerate_e s)))"

definition get_fee_estimator :: "'w dialog \<Rightarrow> estimator option" where
  "get_fee_estimator s =
     (if is_send_fee_frozen s \<and> get_amount (fee_e s) \<noteq> None then
        map_option FixedFee (get_amount (fee_e s))
      else if is_send_feerate_frozen s \<and> get_amount (feerate_e s) \<noteq> None then
        (let amount = get_amount (feerate_e s);
             amount = (case amount of None \<Rightarrow> 0 | Some a \<Rightarrow> a * 1000)
         in Some (FeeForFeerate amount))
      else None)"

section \<open>Building the transaction: \<open>update_tx\<close>\<close>

definition call_make_tx :: "'w make_tx \<Rightarrow> estimator option \<Rightarrow> 'w dialog \<Rightarrow> (exn + tx) \<times> 'w dialog" where
  "call_make_tx mk est s =
     (case mk est (world s) of
        (r, w) \<Rightarrow> (r, s\<lparr>world := w, make_tx_calls := make_tx_calls s @ [est]\<rparr>))"

text \<open>
  The last line of \<^verbatim>\<open>update_tx\<close>, \<^verbatim>\<open>self.tx.set_rbf(True)\<close>. On \<^verbatim>\<open>None\<close> Python raises
  \<^verbatim>\<open>AttributeError\<close>.
\<close>

definition set_rbf_of_tx :: "'w dialog \<Rightarrow> exn option \<times> 'w dialog" where
  "set_rbf_of_tx s =
     (case tx s of
        None \<Rightarrow> (Some (OtherException ''AttributeError''), s)
      | Some t \<Rightarrow> (None, s\<lparr>tx := Some (set_rbf True t)\<rparr>))"

text \<open>
  \<^verbatim>\<open>ConfirmTxDialog.update_tx\<close>. The result is the exception that leaves the method,
  if any, and the dialog afterwards. The zero-fee retries catch \<^verbatim>\<open>BaseException\<close>, so
  no exception of a retry leaves the method.
\<close>

definition zero_fee_retry_nef :: "'w make_tx \<Rightarrow> 'w dialog \<Rightarrow> exn option \<times> 'w dialog" where
  "zero_fee_retry_nef mk s =
     (case call_make_tx mk (Some (FixedFee 0)) s of
        (Inr t, s') \<Rightarrow> set_rbf_of_tx (s'\<lparr>tx := Some t\<rparr>)
      | (Inl e, s') \<Rightarrow> (None, s'))"

definition zero_fee_retry_nodyn :: "'w make_tx \<Rightarrow> 'w dialog \<Rightarrow> exn option \<times> 'w dialog" where
  "zero_fee_retry_nodyn mk s =
     (case call_make_tx mk (Some (FixedFee 0)) s of
        (Inr t, s') \<Rightarrow> set_rbf_of_tx (s'\<lparr>tx := Some t\<rparr>)
      | (Inl NotEnoughFunds, s') \<Rightarrow> (None, s'\<lparr>not_enough_funds := True\<rparr>)
      | (Inl e, s') \<Rightarrow> (None, s'))"

definition update_tx :: "'w make_tx \<Rightarrow> bool \<Rightarrow> 'w dialog \<Rightarrow> exn option \<times> 'w dialog" where
  "update_tx mk fallback_to_zero_fee s =
     (let fee_estimator = get_fee_estimator s in
      case call_make_tx mk fee_estimator s of
        (Inr t, s') \<Rightarrow>
          set_rbf_of_tx (s'\<lparr>tx := Some t, not_enough_funds := False, no_dynfee_estimates := False\<rparr>)
      | (Inl NotEnoughFunds, s') \<Rightarrow>
          (let s'' = s'\<lparr>not_enough_funds := True, tx := None\<rparr> in
           if fallback_to_zero_fee then zero_fee_retry_nef mk s'' else (None, s''))
      | (Inl NoDynamicFeeEstimates, s') \<Rightarrow>
          zero_fee_retry_nodyn mk (s'\<lparr>no_dynfee_estimates := True, tx := None\<rparr>)
      | (Inl (InternalAddressCorruption m), s') \<Rightarrow>
          (Some (InternalAddressCorruption m),
           s'\<lparr>tx := None, errors_shown := errors_shown s' @ [m]\<rparr>)
      | (Inl (OtherException m), s') \<Rightarrow> (Some (OtherException m), s'))"

section \<open>Recomputing the displayed fee and feerate: \<open>update_fee_fields\<close>\<close>

datatype py_error = AssertionError | ZeroDivisionError

text \<open>
  \<^verbatim>\<open>fee / size\<close> on Python integers. The quotient is a float in Python; it is the exact
  rational here. A size of \<^verbatim>\<open>0\<close> raises.
\<close>

definition py_div :: "int \<Rightarrow> nat \<Rightarrow> py_error + rat" where
  "py_div a n = (if n = 0 then Inl ZeroDivisionError else Inr (of_int a / of_nat n))"

text \<open>
  \<^verbatim>\<open>round(d)\<close> of a \<^verbatim>\<open>Decimal\<close> without a number of digits: the nearest integer, a tie
  going to the even one.
\<close>

definition py_round :: "rat \<Rightarrow> int" where
  "py_round x =
     (let f = \<lfloor>x\<rfloor>; d = x - of_int f
      in if d < 1 / 2 then f else if 1 / 2 < d then f + 1 else if even f then f else f + 1)"

text \<open>
  Modelled from the spec: \<^verbatim>\<open>quantize_feerate\<close> of \<^verbatim>\<open>electrum.util\<close>, which is not part
  of the source file. The spec has it round a decimal feerate to a small fixed number of
  decimal places; \<open>p\<close> is that number. A tie goes towards zero. The functions below
  take the quantization as a parameter and this is the instance the examples use.
\<close>

definition round_half_down :: "rat \<Rightarrow> int" where
  "round_half_down x = (if 0 \<le> x then \<lceil>x - 1 / 2\<rceil> else - \<lceil>- x - 1 / 2\<rceil>)"

definition quantize_dp :: "nat \<Rightarrow> rat \<Rightarrow> rat" where
  "quantize_dp p x = of_int (round_half_down (x * 10 ^ p)) / 10 ^ p"

text \<open>
  The values of the local variables \<^verbatim>\<open>displayed_fee\<close>, \<^verbatim>\<open>displayed_feerate\<close>, \<^verbatim>\<open>size\<close>
  and \<^verbatim>\<open>feerounding\<close> when \<^verbatim>\<open>update_fee_fields\<close> reaches its last line.
\<close>

record fee_quote =
  displayed_fee :: "int option"
  displayed_feerate :: "rat option"
  quote_size :: nat
  feerounding :: int

text \<open>Lines 303 to 309: the early return when a banner flag is set.\<close>

definition clear_unfrozen :: "'w dialog \<Rightarrow> 'w dialog" where
  "clear_unfrozen s =
     (let freeze_fee = is_send_fee_frozen s;
          freeze_feerate = is_send_feerate_frozen s;
          s1 = (if \<not> freeze_fee then s\<lparr>fee_e := setAmount None (fee_e s)\<rparr> else s);
          s2 = (if \<not> freeze_feerate then s1\<lparr>feerate_e := setAmount None (feerate_e s1)\<rparr> else s1)
      in s2\<lparr>feerounding_visible := False\<rparr>)"

text \<open>
  Lines 323 to 332: the feerate is frozen or the slider is active. The result is the
  dialog with the two local variables \<^verbatim>\<open>displayed_fee\<close> and \<^verbatim>\<open>displayed_feerate\<close>.
\<close>

definition feerate_branch ::
  "(rat \<Rightarrow> rat) \<Rightarrow> nat \<Rightarrow> int option \<Rightarrow> 'w dialog \<Rightarrow> py_error + ('w dialog \<times> int option \<times> rat option)" where
  "feerate_branch quantize_feerate sz fee s =
     (let with_feerate = (\<lambda>dfr s'.
            let dfee = map_option (\<lambda>r. py_round (r * of_nat sz)) dfr
            in Inr (s'\<lparr>fee_e := setAmount dfee (fee_e s')\<rparr>, dfee, dfr))
      in case get_amount (feerate_e s) of
           Some r \<Rightarrow> with_feerate (Some (quantize_feerate r)) s
         | None \<Rightarrow>
             if slider_active s then
               (case fee of
                  None \<Rightarrow> with_feerate None (s\<lparr>feerate_e := setAmount None (feerate_e s)\<rparr>)
                | Some f \<Rightarrow>
                    (case py_div f sz of
                       Inl e \<Rightarrow> Inl e
                     | Inr d \<Rightarrow>
                         with_feerate (Some (quantize_feerate d))
                           (s\<lparr>feerate_e := setAmount (Some (quantize_feerate d)) (feerate_e s)\<rparr>)))
             else with_feerate None s)"

text \<open>
  Lines 333 to 342: the fee is frozen or nothing is. \<^verbatim>\<open>displayed_fee if displayed_fee else 0\<close>
  turns \<^verbatim>\<open>None\<close> into \<^verbatim>\<open>0\<close>, so the test \<^verbatim>\<open>displayed_fee is not None\<close> of line 341
  always succeeds and the division always runs.
\<close>

definition fee_branch ::
  "(rat \<Rightarrow> rat) \<Rightarrow> bool \<Rightarrow> nat \<Rightarrow> int option \<Rightarrow> 'w dialog \<Rightarrow> py_error + ('w dialog \<times> int option \<times> rat option)" where
  "fee_branch quantize_feerate freeze_fee sz fee s =
     (let dfee0 = (if freeze_fee then get_amount (fee_e s) else fee);
          s1 = (if freeze_fee then s else s\<lparr>fee_e := setAmount fee (fee_e s)\<rparr>);
          dfee = (case dfee0 of None \<Rightarrow> 0 | Some f \<Rightarrow> if f \<noteq> 0 then f else 0)
      in case py_div dfee sz of
           Inl e \<Rightarrow> Inl e
         | Inr d \<Rightarrow>
             Inr (s1\<lparr>feerate_e := setAmount (Some (quantize_feerate d)) (feerate_e s1)\<rparr>,
                  Some dfee, Some (quantize_feerate d)))"

text \<open>
  Line 345: \<^verbatim>\<open>(fee - displayed_fee) if (fee and displayed_fee is not None) else 0\<close>.
  \<^verbatim>\<open>fee\<close> is tested for truth, so a fee of \<^verbatim>\<open>0\<close> counts like \<^verbatim>\<open>None\<close>.
\<close>

definition feerounding_of :: "int option \<Rightarrow> int option \<Rightarrow> int" where
  "feerounding_of fee dfee =
     (case fee of
        None \<Rightarrow> 0
      | Some f \<Rightarrow> (case dfee of None \<Rightarrow> 0 | Some d \<Rightarrow> if f \<noteq> 0 then f - d else 0))"

text \<open>
  \<^verbatim>\<open>TxEditor.update_fee_fields\<close>. The fiat label and the tool tip are display only and
  left out. The result is an error, or the dialog with the quote (no quote on the early
  return).
\<close>

definition update_fee_fields ::
  "(rat \<Rightarrow> rat) \<Rightarrow> 'w dialog \<Rightarrow> py_error + ('w dialog \<times> fee_quote option)" where
  "update_fee_fields quantize_feerate s =
     (let freeze_fee = is_send_fee_frozen s;
          freeze_feerate = is_send_feerate_frozen s;
          s0 = (case tx s of
                  Some t \<Rightarrow> if no_dynfee_estimates s then s\<lparr>size_label := estimated_size t\<rparr> else s
                | None \<Rightarrow> s)
      in if not_enough_funds s \<or> no_dynfee_estimates s then Inr (clear_unfrozen s0, None)
         else
           (case tx s of
              None \<Rightarrow> Inl AssertionError
            | Some t \<Rightarrow>
                (let sz = estimated_size t;
                     fee = get_fee t;
                     s1 = s0\<lparr>size_label := sz\<rparr>
                 in case (if freeze_feerate \<or> slider_active s
                          then feerate_branch quantize_feerate sz fee s1
                          else fee_branch quantize_feerate freeze_fee sz fee s1) of
                      Inl e \<Rightarrow> Inl e
                    | Inr (s2, dfee, dfr) \<Rightarrow>
                        (let fr = feerounding_of fee dfee
                         in Inr (s2\<lparr>feerounding_num := fr, feerounding_visible := (\<bar>fr\<bar> \<ge> 1)\<rparr>,
                                 Some \<lparr>displayed_fee = dfee, displayed_feerate = dfr,
                                       quote_size = sz, feerounding = fr\<rparr>)))))"

section \<open>Edit events\<close>

text \<open>
  \<^verbatim>\<open>_trigger_update\<close> sets \<^verbatim>\<open>tx\<close> to \<^verbatim>\<open>None\<close> and calls \<^verbatim>\<open>update()\<close>, which with no
  transaction only disables the send button and, unless the funds banner is up, hides
  the rounding icon.
\<close>

definition update_without_tx :: "'w dialog \<Rightarrow> 'w dialog" where
  "update_without_tx s =
     (if not_enough_funds s then s\<lparr>send_enabled := False\<rparr>
      else s\<lparr>send_enabled := False, feerounding_visible := False\<rparr>)"

definition trigger_update :: "'w dialog \<Rightarrow> 'w dialog" where
  "trigger_update s = (update_without_tx (s\<lparr>tx := None\<rparr>))\<lparr>needs_update := True\<rparr>"

datatype field = FeeField | FeerateField

definition on_fee_or_feerate :: "field \<Rightarrow> bool \<Rightarrow> 'w dialog \<Rightarrow> 'w dialog" where
  "on_fee_or_feerate edit_changed editing_finished s =
     (let s1 =
        (if editing_finished then
           (case edit_changed of
              FeeField \<Rightarrow>
                if get_amount (fee_e s) = None
                then s\<lparr>fee_e := setModified False (fee_e s)\<rparr> else s
            | FeerateField \<Rightarrow>
                if get_amount (feerate_e s) = None
                then s\<lparr>feerate_e := setModified False (feerate_e s)\<rparr> else s)
         else
           (case edit_changed of
              FeeField \<Rightarrow> s\<lparr>feerate_e := setModified False (feerate_e s)\<rparr>
            | FeerateField \<Rightarrow> s\<lparr>fee_e := setModified False (fee_e s)\<rparr>))
      in trigger_update (s1\<lparr>slider_active := False\<rparr>))"

text \<open>\<^verbatim>\<open>entry_changed\<close>, connected to \<^verbatim>\<open>textChanged\<close>; the colours are left out.\<close>

definition entry_changed :: "'w dialog \<Rightarrow> 'w dialog" where
  "entry_changed s = s\<lparr>needs_update := True\<rparr>"

text \<open>
  What the user does to the two line edits. Typing into a line edit replaces its text
  and sets its modified flag (the line edit does both itself), then \<^verbatim>\<open>textChanged\<close> and
  \<^verbatim>\<open>textEdited\<close> run \<^verbatim>\<open>entry_changed\<close> and \<^verbatim>\<open>on_fee_or_feerate(edit, False)\<close>. Leaving the
  line edit or pressing return emits \<^verbatim>\<open>editingFinished\<close>, which runs
  \<^verbatim>\<open>on_fee_or_feerate(edit, True)\<close>. \<open>FocusMoved\<close> is the focus going to one of the two
  line edits or elsewhere.
\<close>

datatype event =
    FeeTextEdited "int entry"
  | FeerateTextEdited "rat entry"
  | EditingFinished field
  | FocusMoved "field option"

definition user_types :: "'a entry \<Rightarrow> 'a amount_edit \<Rightarrow> 'a amount_edit" where
  "user_types c e = e\<lparr>content := c, modified := True\<rparr>"

fun handle_event :: "event \<Rightarrow> 'w dialog \<Rightarrow> 'w dialog" where
  "handle_event (FeeTextEdited c) s =
     on_fee_or_feerate FeeField False (entry_changed (s\<lparr>fee_e := user_types c (fee_e s)\<rparr>))"
| "handle_event (FeerateTextEdited c) s =
     on_fee_or_feerate FeerateField False (entry_changed (s\<lparr>feerate_e := user_types c (feerate_e s)\<rparr>))"
| "handle_event (EditingFinished f) s = on_fee_or_feerate f True s"
| "handle_event (FocusMoved f) s =
     s\<lparr>fee_e := (fee_e s)\<lparr>has_focus := (f = Some FeeField)\<rparr>,
       feerate_e := (feerate_e s)\<lparr>has_focus := (f = Some FeerateField)\<rparr>\<rparr>"

fun handle_events :: "event list \<Rightarrow> 'w dialog \<Rightarrow> 'w dialog" where
  "handle_events [] s = s"
| "handle_events (e # es) s = handle_events es (handle_event e s)"

text \<open>
  The mode of the spec's data model, read off the two predicates in the order in which
  \<^verbatim>\<open>get_fee_estimator\<close> asks them.
\<close>

datatype fee_input_mode = AUTO | FEE_FROZEN | FEERATE_FROZEN

definition mode :: "'w dialog \<Rightarrow> fee_input_mode" where
  "mode s =
     (if is_send_fee_frozen s then FEE_FROZEN
      else if is_send_feerate_frozen s then FEERATE_FROZEN
      else AUTO)"

text \<open>
  The dialog as \<^verbatim>\<open>TxEditor.__init__\<close> leaves it: no transaction, no banner, both line
  edits fresh (unmodified, without focus), the feerate line edit holding
  \<^verbatim>\<open>config.fee_per_byte()\<close>. Whether the fee line edits are shown (\<open>details\<close>) comes from
  the configuration, the state of the slider from the slider.
\<close>

definition new_dialog :: "bool \<Rightarrow> rat option \<Rightarrow> bool \<Rightarrow> 'w \<Rightarrow> 'w dialog" where
  "new_dialog details fee_per_byte slider w =
     \<lparr>tx = None, not_enough_funds = False, no_dynfee_estimates = False, needs_update = False,
      fee_e = \<lparr>visible = details, modified = False, has_focus = False, content = Blank\<rparr>,
      feerate_e = setAmount fee_per_byte
                    \<lparr>visible = details, modified = False, has_focus = False, content = Blank\<rparr>,
      slider_active = slider, size_label = 0, feerounding_num = 0, feerounding_visible = False,
      send_enabled = True, timer_connected = True, errors_shown = [], world = w,
      make_tx_calls = []\<rparr>"

section \<open>Closing the dialog: \<open>run\<close>\<close>

definition stop_editor_updates :: "'w dialog \<Rightarrow> 'w dialog" where
  "stop_editor_updates s = s\<lparr>timer_connected := False\<rparr>"

text \<open>
  \<^verbatim>\<open>TxEditor.run\<close>. \<open>exec\<close> (\<^verbatim>\<open>self.exec_()\<close>) is the modal event loop: it returns whether the dialog was
  accepted and the dialog as the loop left it.
\<close>

definition run :: "('w dialog \<Rightarrow> bool \<times> 'w dialog) \<Rightarrow> 'w dialog \<Rightarrow> tx option \<times> 'w dialog" where
  "run exec s =
     (case exec s of
        (accepted, s1) \<Rightarrow>
          (let cancelled = \<not> accepted;
               s2 = stop_editor_updates s1
           in (if \<not> cancelled then tx s2 else None, s2)))"

section \<open>The spec's relations, and example dialogs\<close>


text \<open>
  The rounding delta in the spec's words: \<^verbatim>\<open>actual_fee - displayed_fee\<close>, zero if
  either is null.
\<close>

definition claimed_feerounding :: "int option \<Rightarrow> int option \<Rightarrow> int" where
  "claimed_feerounding fee dfee =
     (case fee of None \<Rightarrow> 0 | Some f \<Rightarrow> (case dfee of None \<Rightarrow> 0 | Some d \<Rightarrow> f - d))"

definition quote_of :: "py_error + ('w dialog \<times> fee_quote option) \<Rightarrow> fee_quote option" where
  "quote_of r = (case r of Inl e \<Rightarrow> None | Inr (s, q) \<Rightarrow> q)"

definition dialog_of :: "py_error + ('w dialog \<times> fee_quote option) \<Rightarrow> 'w dialog option" where
  "dialog_of r = (case r of Inl e \<Rightarrow> None | Inr (s, q) \<Rightarrow> Some s)"

text \<open>
  A \<^verbatim>\<open>make_tx\<close> for the examples: the world is the number of calls so far and call
  number \<open>k\<close> has the outcome \<open>rs ! k\<close>, whatever its argument.
\<close>

definition make_tx_script :: "(exn + tx) list \<Rightarrow> nat make_tx" where
  "make_tx_script rs est k =
     (if k < length rs then rs ! k else Inl (OtherException ''unscripted''), Suc k)"

text \<open>
  Example dialogs, each reached from a new dialog with the fee line edits shown:
  the user has typed a fee of 1000 (\<open>fee_typed_dialog\<close>), and then a transaction of
  226 bytes was built (\<open>fee_frozen_dialog\<close>) or the funds did not suffice
  (\<open>broke_dialog\<close>); the user has typed a feerate (\<open>feerate_typed_dialog\<close>), and the
  builder answered a feerate of 1 with a transaction of 100 bytes paying no fee
  (\<open>zero_fee_dialog\<close>); the user, in the fee line edit, has typed a fee and deleted it
  again (\<open>fee_blanked_dialog\<close>).
\<close>

definition fee_typed_dialog :: "nat dialog" where
  "fee_typed_dialog = handle_event (FeeTextEdited (Amount 1000)) (new_dialog True (Some 1) True 0)"

definition fee_frozen_dialog :: "nat dialog" where
  "fee_frozen_dialog =
     snd (update_tx (make_tx_script [Inr \<lparr>estimated_size = 226, get_fee = Some 1000, rbf = False\<rparr>])
            False fee_typed_dialog)"

definition broke_dialog :: "nat dialog" where
  "broke_dialog = snd (update_tx (make_tx_script [Inl NotEnoughFunds]) False fee_typed_dialog)"

definition feerate_typed_dialog :: "nat dialog" where
  "feerate_typed_dialog = handle_event (FeerateTextEdited (Amount 5)) (new_dialog True None True 0)"

definition zero_fee_dialog :: "nat dialog" where
  "zero_fee_dialog =
     snd (update_tx (make_tx_script [Inr \<lparr>estimated_size = 100, get_fee = Some 0, rbf = False\<rparr>])
            False (handle_event (FeerateTextEdited (Amount 1)) (new_dialog True None True 0)))"

definition fee_blanked_dialog :: "nat dialog" where
  "fee_blanked_dialog =
     handle_events [FocusMoved (Some FeeField), FeeTextEdited (Amount 1000), FeeTextEdited Blank]
       (new_dialog True (Some 1) True 0)"

section \<open>Lemmas\<close>

subsection \<open>Rounding\<close>





subsection \<open>The branches of \<open>update_tx\<close>\<close>

lemma call_make_tx_eq:
  "mk est (world s) = (r, w) \<Longrightarrow>
   call_make_tx mk est s = (r, s\<lparr>world := w, make_tx_calls := make_tx_calls s @ [est]\<rparr>)"
  by (simp add: call_make_tx_def)

lemma set_rbf_of_tx_rbf:
  "set_rbf_of_tx s = (None, s') \<Longrightarrow> tx s' = Some t \<Longrightarrow> rbf t"
  by (auto simp: set_rbf_of_tx_def set_rbf_def split: option.splits)

lemma zero_fee_retry_nef_rbf:
  "zero_fee_retry_nef mk s = (None, s') \<Longrightarrow> tx s = None \<Longrightarrow> tx s' = Some t \<Longrightarrow> rbf t"
  by (auto simp: zero_fee_retry_nef_def call_make_tx_def
           split: prod.splits sum.splits dest: set_rbf_of_tx_rbf)

lemma zero_fee_retry_nodyn_rbf:
  "zero_fee_retry_nodyn mk s = (None, s') \<Longrightarrow> tx s = None \<Longrightarrow> tx s' = Some t \<Longrightarrow> rbf t"
  by (auto simp: zero_fee_retry_nodyn_def call_make_tx_def
           split: prod.splits sum.splits exn.splits dest: set_rbf_of_tx_rbf)

subsection \<open>The branches of \<open>update_fee_fields\<close>\<close>

lemma feerate_branch_ok:
  assumes "0 < sz"
  shows "\<exists>s' dfr. feerate_branch q sz fee s = Inr (s', map_option (\<lambda>r. py_round (r * of_nat sz)) dfr, dfr)"
  using assms
  by (auto simp: feerate_branch_def py_div_def Let_def split: option.splits)

lemma fee_branch_ok:
  assumes "0 < sz"
  shows "\<exists>s' f. fee_branch q fz sz fee s = Inr (s', Some f, Some (q (of_int f / of_nat sz)))"
  using assms
  by (auto simp: fee_branch_def py_div_def Let_def split: option.splits)

lemma update_fee_fields_build:
  assumes "tx s = Some t" "\<not> not_enough_funds s" "\<not> no_dynfee_estimates s"
  shows "update_fee_fields q s =
     (case (if is_send_feerate_frozen s \<or> slider_active s
            then feerate_branch q (estimated_size t) (get_fee t) (s\<lparr>size_label := estimated_size t\<rparr>)
            else fee_branch q (is_send_fee_frozen s) (estimated_size t) (get_fee t)
                   (s\<lparr>size_label := estimated_size t\<rparr>)) of
        Inl e \<Rightarrow> Inl e
      | Inr (s2, dfee, dfr) \<Rightarrow>
          Inr (s2\<lparr>feerounding_num := feerounding_of (get_fee t) dfee,
                  feerounding_visible := (\<bar>feerounding_of (get_fee t) dfee\<bar> \<ge> 1)\<rparr>,
               Some \<lparr>displayed_fee = dfee, displayed_feerate = dfr,
                     quote_size = estimated_size t, feerounding = feerounding_of (get_fee t) dfee\<rparr>))"
  using assms by (auto simp: update_fee_fields_def Let_def split: sum.splits prod.splits)

lemma update_fee_fields_banner_eq:
  assumes "not_enough_funds s \<or> no_dynfee_estimates s"
  shows "update_fee_fields q s =
     Inr (clear_unfrozen
            (case tx s of
               Some t \<Rightarrow> if no_dynfee_estimates s then s\<lparr>size_label := estimated_size t\<rparr> else s
             | None \<Rightarrow> s), None)"
  using assms by (simp add: update_fee_fields_def Let_def)

lemma frozen_size_label [simp]:
  "is_send_fee_frozen (s\<lparr>size_label := n\<rparr>) = is_send_fee_frozen s"
  "is_send_feerate_frozen (s\<lparr>size_label := n\<rparr>) = is_send_feerate_frozen s"
  by (simp_all add: is_send_fee_frozen_def is_send_feerate_frozen_def)

subsection \<open>Edit events and the modified flags\<close>

lemma edits_of_trigger_update [simp]:
  "fee_e (trigger_update s) = fee_e s" "feerate_e (trigger_update s) = feerate_e s"
  by (simp_all add: trigger_update_def update_without_tx_def)

lemma on_fee_or_feerate_edit:
  "fee_e (on_fee_or_feerate FeeField False s) = fee_e s"
  "feerate_e (on_fee_or_feerate FeeField False s) = setModified False (feerate_e s)"
  "fee_e (on_fee_or_feerate FeerateField False s) = setModified False (fee_e s)"
  "feerate_e (on_fee_or_feerate FeerateField False s) = feerate_e s"
  by (simp_all add: on_fee_or_feerate_def)

lemma on_fee_or_feerate_commit:
  "fee_e (on_fee_or_feerate FeeField True s) =
     (if get_amount (fee_e s) = None then setModified False (fee_e s) else fee_e s)"
  "feerate_e (on_fee_or_feerate FeeField True s) = feerate_e s"
  "fee_e (on_fee_or_feerate FeerateField True s) = fee_e s"
  "feerate_e (on_fee_or_feerate FeerateField True s) =
     (if get_amount (feerate_e s) = None then setModified False (feerate_e s) else feerate_e s)"
  by (simp_all add: on_fee_or_feerate_def)

lemma handle_event_keeps_one_modified:
  assumes "\<not> (modified (fee_e s) \<and> modified (feerate_e s))"
  shows "\<not> (modified (fee_e (handle_event e s)) \<and> modified (feerate_e (handle_event e s)))"
proof (cases e)
  case (EditingFinished f)
  with assms show ?thesis
    by (cases f) (auto simp: on_fee_or_feerate_commit setModified_def)
qed (use assms in \<open>auto simp: on_fee_or_feerate_edit setModified_def entry_changed_def user_types_def\<close>)

lemma handle_events_keep_one_modified:
  "\<not> (modified (fee_e s) \<and> modified (feerate_e s)) \<Longrightarrow>
   \<not> (modified (fee_e (handle_events es s)) \<and> modified (feerate_e (handle_events es s)))"
proof (induction es arbitrary: s)
  case Nil
  then show ?case by simp
next
  case (Cons e es)
  from Cons.prems
  have "\<not> (modified (fee_e (handle_event e s)) \<and> modified (feerate_e (handle_event e s)))"
    by (rule handle_event_keeps_one_modified)
  then show ?case by (simp add: Cons.IH)
qed

lemma new_dialog_unmodified:
  "\<not> (modified (fee_e (new_dialog details fee_per_byte slider w))
      \<and> modified (feerate_e (new_dialog details fee_per_byte slider w)))"
  by (simp add: new_dialog_def)

subsection \<open>The example dialogs\<close>

lemmas example_defs =
  fee_typed_dialog_def fee_frozen_dialog_def broke_dialog_def zero_fee_dialog_def
  feerate_typed_dialog_def fee_blanked_dialog_def
  new_dialog_def make_tx_script_def update_tx_def call_make_tx_def get_fee_estimator_def
  is_send_fee_frozen_def is_send_feerate_frozen_def text_nonempty_def get_amount_def
  setAmount_def setModified_def set_rbf_of_tx_def set_rbf_def on_fee_or_feerate_def
  trigger_update_def update_without_tx_def entry_changed_def user_types_def
  zero_fee_retry_nef_def zero_fee_retry_nodyn_def

lemma fee_typed_dialog_facts:
  "\<not> (modified (fee_e fee_typed_dialog) \<and> modified (feerate_e fee_typed_dialog))"
  "is_send_fee_frozen fee_typed_dialog" "visible (feerate_e fee_typed_dialog)"
  "mode fee_typed_dialog = FEE_FROZEN" "get_amount (fee_e fee_typed_dialog) = Some 1000"
  by (simp_all add: example_defs mode_def)

lemma feerate_typed_dialog_facts:
  "\<not> is_send_fee_frozen feerate_typed_dialog" "is_send_feerate_frozen feerate_typed_dialog"
  "get_amount (feerate_e feerate_typed_dialog) = Some 5"
  by (simp_all add: example_defs)

lemma fee_frozen_dialog_facts:
  "tx fee_frozen_dialog = Some \<lparr>estimated_size = 226, get_fee = Some 1000, rbf = True\<rparr>"
  "\<not> not_enough_funds fee_frozen_dialog" "\<not> no_dynfee_estimates fee_frozen_dialog"
  "\<not> is_send_feerate_frozen fee_frozen_dialog" "\<not> slider_active fee_frozen_dialog"
  "is_send_fee_frozen fee_frozen_dialog"
  by (simp_all add: example_defs)

lemma zero_fee_dialog_facts:
  "tx zero_fee_dialog = Some \<lparr>estimated_size = 100, get_fee = Some 0, rbf = True\<rparr>"
  "\<not> not_enough_funds zero_fee_dialog" "\<not> no_dynfee_estimates zero_fee_dialog"
  "is_send_feerate_frozen zero_fee_dialog"
  by (simp_all add: example_defs)

lemma broke_dialog_facts:
  "not_enough_funds broke_dialog" "is_send_fee_frozen broke_dialog"
  "\<not> is_send_feerate_frozen broke_dialog"
  "get_amount (fee_e broke_dialog) = Some 1000" "tx broke_dialog = None"
  by (simp_all add: example_defs)

lemma fee_blanked_dialog_facts:
  "\<not> (modified (fee_e fee_blanked_dialog) \<and> modified (feerate_e fee_blanked_dialog))"
  "is_send_fee_frozen fee_blanked_dialog" "get_amount (fee_e fee_blanked_dialog) = None"
  by (simp_all add: example_defs)



lemma zero_fee_dialog_quote:
  "quote_of (update_fee_fields (quantize_dp 1) zero_fee_dialog) =
     Some \<lparr>displayed_fee = Some 100, displayed_feerate = Some 1, quote_size = 100, feerounding = 0\<rparr>"
  by code_simp

lemma zero_fee_dialog_icon:
  "map_option feerounding_visible (dialog_of (update_fee_fields (quantize_dp 1) zero_fee_dialog))
     = Some False"
  by code_simp

section \<open>The claims\<close>

subsection \<open>C1: displayed fee against displayed feerate\<close>




subsection \<open>C2: the fee estimator\<close>

text \<open>
  C2: \<^verbatim>\<open>get_fee_estimator\<close> returns the literal fee when the fee field is frozen and holds
  an amount; otherwise, when the feerate field is frozen and holds an amount, the estimator
  built from that feerate times 1000; otherwise \<^verbatim>\<open>None\<close>. The three cases exclude each
  other and leave nothing out, so exactly one source decides.
\<close>

theorem get_fee_estimator_precedence:
  "(is_send_fee_frozen s \<and> get_amount (fee_e s) = Some f
      \<longrightarrow> get_fee_estimator s = Some (FixedFee f)) \<and>
   (\<not> (is_send_fee_frozen s \<and> get_amount (fee_e s) \<noteq> None)
      \<and> is_send_feerate_frozen s \<and> get_amount (feerate_e s) = Some r
      \<longrightarrow> get_fee_estimator s = Some (FeeForFeerate (r * 1000))) \<and>
   (\<not> (is_send_fee_frozen s \<and> get_amount (fee_e s) \<noteq> None)
      \<and> \<not> (is_send_feerate_frozen s \<and> get_amount (feerate_e s) \<noteq> None)
      \<longrightarrow> get_fee_estimator s = None)"
proof (intro conjI impI)
  assume "is_send_fee_frozen s \<and> get_amount (fee_e s) = Some f"
  then show "get_fee_estimator s = Some (FixedFee f)"
    by (simp add: get_fee_estimator_def)
next
  assume "\<not> (is_send_fee_frozen s \<and> get_amount (fee_e s) \<noteq> None)
          \<and> is_send_feerate_frozen s \<and> get_amount (feerate_e s) = Some r"
  then show "get_fee_estimator s = Some (FeeForFeerate (r * 1000))"
    by (auto simp: get_fee_estimator_def)
next
  assume "\<not> (is_send_fee_frozen s \<and> get_amount (fee_e s) \<noteq> None)
          \<and> \<not> (is_send_feerate_frozen s \<and> get_amount (feerate_e s) \<noteq> None)"
  then show "get_fee_estimator s = None"
    by (auto simp: get_fee_estimator_def)
qed

text \<open>C2 at three dialogs: a typed fee, a typed feerate, and a new dialog.\<close>

theorem get_fee_estimator_precedence_witness:
  "is_send_fee_frozen fee_typed_dialog \<and> get_amount (fee_e fee_typed_dialog) = Some 1000 \<and>
   get_fee_estimator fee_typed_dialog = Some (FixedFee 1000) \<and>
   \<not> is_send_fee_frozen feerate_typed_dialog \<and> is_send_feerate_frozen feerate_typed_dialog \<and>
   get_amount (feerate_e feerate_typed_dialog) = Some 5 \<and>
   get_fee_estimator feerate_typed_dialog = Some (FeeForFeerate 5000) \<and>
   \<not> is_send_fee_frozen (new_dialog True (Some 1) True (0::nat)) \<and>
   \<not> is_send_feerate_frozen (new_dialog True (Some 1) True (0::nat)) \<and>
   get_fee_estimator (new_dialog True (Some 1) True (0::nat)) = None"
proof -
  have c: "\<not> is_send_fee_frozen (new_dialog True (Some 1) True (0::nat))"
    "\<not> is_send_feerate_frozen (new_dialog True (Some 1) True (0::nat))"
    by (simp_all add: example_defs)
  from fee_typed_dialog_facts feerate_typed_dialog_facts c
    get_fee_estimator_precedence [of fee_typed_dialog 1000 0]
    get_fee_estimator_precedence [of feerate_typed_dialog 0 5]
    get_fee_estimator_precedence [of "new_dialog True (Some 1) True (0::nat)" 0 0]
  show ?thesis by simp
qed

subsection \<open>C3: the builder raises \<open>NotEnoughFunds\<close>\<close>

text \<open>
  C3: when the first call of \<^verbatim>\<open>make_tx\<close> raises \<^verbatim>\<open>NotEnoughFunds\<close>, \<^verbatim>\<open>update_tx\<close> raises
  nothing and sets \<^verbatim>\<open>not_enough_funds\<close>. It calls \<^verbatim>\<open>make_tx\<close> a second time, once and
  with the fee \<^verbatim>\<open>0\<close>, if and only if \<^verbatim>\<open>fallback_to_zero_fee\<close> is set. Without the retry, and
  when the retry raises anything, the transaction is \<^verbatim>\<open>None\<close> afterwards; when the retry
  succeeds, its transaction is kept.
\<close>

theorem update_tx_not_enough_funds:
  assumes "mk (get_fee_estimator s) (world s) = (Inl NotEnoughFunds, w1)"
  shows "case update_tx mk fallback_to_zero_fee s of
           (raised, s') \<Rightarrow>
             raised = None \<and> not_enough_funds s' \<and>
             no_dynfee_estimates s' = no_dynfee_estimates s \<and>
             make_tx_calls s' =
               make_tx_calls s @ get_fee_estimator s #
                 (if fallback_to_zero_fee then [Some (FixedFee 0)] else []) \<and>
             (if fallback_to_zero_fee then
                (case mk (Some (FixedFee 0)) w1 of
                   (Inl e, w2) \<Rightarrow> tx s' = None \<and> world s' = w2
                 | (Inr t, w2) \<Rightarrow> tx s' = Some (set_rbf True t) \<and> world s' = w2)
              else tx s' = None \<and> world s' = w1)"
  using assms
  by (auto simp: update_tx_def call_make_tx_def zero_fee_retry_nef_def set_rbf_of_tx_def
           split: prod.splits sum.splits)

text \<open>
  C3 at a dialog with a typed fee of 1000: the builder lacks funds, and the retry with a
  zero fee fails with another exception.
\<close>

theorem update_tx_not_enough_funds_witness:
  "make_tx_script [Inl NotEnoughFunds, Inl (OtherException ''no route'')]
     (get_fee_estimator fee_typed_dialog) (world fee_typed_dialog) = (Inl NotEnoughFunds, 1) \<and>
   fst (update_tx (make_tx_script [Inl NotEnoughFunds, Inl (OtherException ''no route'')]) True
          fee_typed_dialog) = None \<and>
   not_enough_funds
     (snd (update_tx (make_tx_script [Inl NotEnoughFunds, Inl (OtherException ''no route'')]) True
          fee_typed_dialog)) \<and>
   tx (snd (update_tx (make_tx_script [Inl NotEnoughFunds, Inl (OtherException ''no route'')]) True
          fee_typed_dialog)) = None \<and>
   make_tx_calls
     (snd (update_tx (make_tx_script [Inl NotEnoughFunds, Inl (OtherException ''no route'')]) True
          fee_typed_dialog)) = [Some (FixedFee 1000), Some (FixedFee 0)]"
proof -
  let ?mk = "make_tx_script [Inl NotEnoughFunds, Inl (OtherException ''no route'')]"
  have h: "?mk (get_fee_estimator fee_typed_dialog) (world fee_typed_dialog) = (Inl NotEnoughFunds, 1)"
    by (simp add: example_defs)
  have r: "?mk (Some (FixedFee 0)) 1 = (Inl (OtherException ''no route''), 2)"
    by (simp add: make_tx_script_def)
  have e: "get_fee_estimator fee_typed_dialog = Some (FixedFee 1000)"
    "make_tx_calls fee_typed_dialog = []"
    by (simp_all add: example_defs)
  from update_tx_not_enough_funds [of ?mk fee_typed_dialog 1 True, OF h] r e
  have "fst (update_tx ?mk True fee_typed_dialog) = None \<and>
        not_enough_funds (snd (update_tx ?mk True fee_typed_dialog)) \<and>
        tx (snd (update_tx ?mk True fee_typed_dialog)) = None \<and>
        make_tx_calls (snd (update_tx ?mk True fee_typed_dialog))
          = [Some (FixedFee 1000), Some (FixedFee 0)]"
    by (simp split: prod.splits)
  with h show ?thesis by (rule conjI)
qed

subsection \<open>C4: the builder raises \<open>NoDynamicFeeEstimates\<close>\<close>

text \<open>
  C4: when the first call of \<^verbatim>\<open>make_tx\<close> raises \<^verbatim>\<open>NoDynamicFeeEstimates\<close>, \<^verbatim>\<open>update_tx\<close>
  raises nothing, sets \<^verbatim>\<open>no_dynfee_estimates\<close> and calls \<^verbatim>\<open>make_tx\<close> once more with the
  fee \<^verbatim>\<open>0\<close>, whatever \<^verbatim>\<open>fallback_to_zero_fee\<close> is. When the retry raises, the transaction is
  \<^verbatim>\<open>None\<close> afterwards, and \<^verbatim>\<open>not_enough_funds\<close> is set as well when what it raised is
  \<^verbatim>\<open>NotEnoughFunds\<close>, and keeps its value otherwise.
\<close>

theorem update_tx_no_dynfee_estimates:
  assumes "mk (get_fee_estimator s) (world s) = (Inl NoDynamicFeeEstimates, w1)"
  shows "case update_tx mk fallback_to_zero_fee s of
           (raised, s') \<Rightarrow>
             raised = None \<and> no_dynfee_estimates s' \<and>
             make_tx_calls s' = make_tx_calls s @ [get_fee_estimator s, Some (FixedFee 0)] \<and>
             (case mk (Some (FixedFee 0)) w1 of
                (Inr t, w2) \<Rightarrow>
                  tx s' = Some (set_rbf True t) \<and>
                  not_enough_funds s' = not_enough_funds s \<and> world s' = w2
              | (Inl e, w2) \<Rightarrow>
                  tx s' = None \<and> world s' = w2 \<and>
                  not_enough_funds s' = (e = NotEnoughFunds \<or> not_enough_funds s))"
  using assms
  by (auto simp: update_tx_def call_make_tx_def zero_fee_retry_nodyn_def set_rbf_of_tx_def
           split: prod.splits sum.splits exn.splits)

text \<open>
  C4 at a new dialog: no fee estimates, and the retry with a zero fee lacks funds.
\<close>

theorem update_tx_no_dynfee_estimates_witness:
  "make_tx_script [Inl NoDynamicFeeEstimates, Inl NotEnoughFunds]
     (get_fee_estimator (new_dialog True None True (0::nat))) (world (new_dialog True None True (0::nat)))
       = (Inl NoDynamicFeeEstimates, 1) \<and>
   fst (update_tx (make_tx_script [Inl NoDynamicFeeEstimates, Inl NotEnoughFunds]) False
          (new_dialog True None True (0::nat))) = None \<and>
   no_dynfee_estimates
     (snd (update_tx (make_tx_script [Inl NoDynamicFeeEstimates, Inl NotEnoughFunds]) False
          (new_dialog True None True (0::nat)))) \<and>
   not_enough_funds
     (snd (update_tx (make_tx_script [Inl NoDynamicFeeEstimates, Inl NotEnoughFunds]) False
          (new_dialog True None True (0::nat)))) \<and>
   tx (snd (update_tx (make_tx_script [Inl NoDynamicFeeEstimates, Inl NotEnoughFunds]) False
          (new_dialog True None True (0::nat)))) = None \<and>
   make_tx_calls
     (snd (update_tx (make_tx_script [Inl NoDynamicFeeEstimates, Inl NotEnoughFunds]) False
          (new_dialog True None True (0::nat)))) = [None, Some (FixedFee 0)]"
proof -
  let ?mk = "make_tx_script [Inl NoDynamicFeeEstimates, Inl NotEnoughFunds]"
  let ?s = "new_dialog True None True (0::nat)"
  have h: "?mk (get_fee_estimator ?s) (world ?s) = (Inl NoDynamicFeeEstimates, 1)"
    by (simp add: example_defs)
  have r: "?mk (Some (FixedFee 0)) 1 = (Inl NotEnoughFunds, 2)"
    by (simp add: make_tx_script_def)
  have e: "get_fee_estimator ?s = None" "make_tx_calls ?s = []"
    by (simp_all add: example_defs)
  from update_tx_no_dynfee_estimates [of ?mk ?s 1 False, OF h] r e
  have "fst (update_tx ?mk False ?s) = None \<and>
        no_dynfee_estimates (snd (update_tx ?mk False ?s)) \<and>
        not_enough_funds (snd (update_tx ?mk False ?s)) \<and>
        tx (snd (update_tx ?mk False ?s)) = None \<and>
        make_tx_calls (snd (update_tx ?mk False ?s)) = [None, Some (FixedFee 0)]"
    by (simp split: prod.splits)
  with h show ?thesis by (rule conjI)
qed

subsection \<open>C5: the builder raises \<open>InternalAddressCorruption\<close>\<close>

text \<open>
  C5: when the first call of \<^verbatim>\<open>make_tx\<close> raises \<^verbatim>\<open>InternalAddressCorruption\<close>, \<^verbatim>\<open>update_tx\<close>
  sets the transaction to \<^verbatim>\<open>None\<close>, shows the message of the exception and raises the same
  exception; it changes no banner flag and makes no second call.
\<close>

theorem update_tx_address_corruption:
  assumes "mk (get_fee_estimator s) (world s) = (Inl (InternalAddressCorruption m), w1)"
  shows "update_tx mk fallback_to_zero_fee s =
           (Some (InternalAddressCorruption m),
            s\<lparr>tx := None, errors_shown := errors_shown s @ [m], world := w1,
              make_tx_calls := make_tx_calls s @ [get_fee_estimator s]\<rparr>)"
  using assms
  by (simp add: update_tx_def call_make_tx_def)

text \<open>C5 at a new dialog, with the zero-fee fallback asked for.\<close>

theorem update_tx_address_corruption_witness:
  "make_tx_script [Inl (InternalAddressCorruption ''bad address'')]
     (get_fee_estimator (new_dialog True None True (0::nat))) (world (new_dialog True None True (0::nat)))
       = (Inl (InternalAddressCorruption ''bad address''), 1) \<and>
   update_tx (make_tx_script [Inl (InternalAddressCorruption ''bad address'')]) True
       (new_dialog True None True (0::nat)) =
     (Some (InternalAddressCorruption ''bad address''),
      (new_dialog True None True (0::nat))\<lparr>tx := None, errors_shown := [''bad address''], world := 1,
         make_tx_calls := [None]\<rparr>)"
proof -
  let ?mk = "make_tx_script [Inl (InternalAddressCorruption ''bad address'')]"
  let ?s = "new_dialog True None True (0::nat)"
  have h: "?mk (get_fee_estimator ?s) (world ?s) = (Inl (InternalAddressCorruption ''bad address''), 1)"
    by (simp add: example_defs)
  have e: "get_fee_estimator ?s = None" "make_tx_calls ?s = []" "errors_shown ?s = []"
    by (simp_all add: example_defs)
  from update_tx_address_corruption [of ?mk ?s "''bad address''" 1 True, OF h] e
  have "update_tx ?mk True ?s =
     (Some (InternalAddressCorruption ''bad address''),
      ?s\<lparr>tx := None, errors_shown := [''bad address''], world := 1, make_tx_calls := [None]\<rparr>)"
    by simp
  with h show ?thesis by (rule conjI)
qed

subsection \<open>C6: the recompute pass under a banner flag\<close>

text \<open>
  C6, as stated: whenever a banner flag is set, the recompute pass clears both fields to
  null, whichever fields are frozen. This fails for a frozen field: the user has typed a
  fee of 1000, the builder lacked funds, and after the recompute pass the fee field still
  holds 1000.
\<close>

theorem update_fee_fields_banner_counterexample:
  "not_enough_funds broke_dialog \<and>
   map_option (\<lambda>s'. get_amount (fee_e s')) (dialog_of (update_fee_fields (quantize_dp 1) broke_dialog))
     = Some (Some 1000)"
proof -
  have "update_fee_fields (quantize_dp 1) broke_dialog = Inr (clear_unfrozen broke_dialog, None)"
    using broke_dialog_facts by (simp add: update_fee_fields_banner_eq)
  moreover have "get_amount (fee_e (clear_unfrozen broke_dialog)) = Some 1000"
    using broke_dialog_facts by (simp add: clear_unfrozen_def Let_def)
  ultimately show ?thesis using broke_dialog_facts by (simp add: dialog_of_def)
qed

text \<open>
  C6, amended: whenever \<^verbatim>\<open>not_enough_funds\<close> or \<^verbatim>\<open>no_dynfee_estimates\<close> is set, the
  recompute pass returns early without a quote, hides the rounding indicator, clears to
  null each of the two fields that is not frozen, and leaves a frozen field as it is.
\<close>

theorem update_fee_fields_banner:
  assumes "not_enough_funds s \<or> no_dynfee_estimates s"
  shows "\<exists>s'. update_fee_fields q s = Inr (s', None) \<and>
           content (fee_e s') = (if is_send_fee_frozen s then content (fee_e s) else Blank) \<and>
           content (feerate_e s') = (if is_send_feerate_frozen s then content (feerate_e s) else Blank) \<and>
           get_amount (fee_e s') = (if is_send_fee_frozen s then get_amount (fee_e s) else None) \<and>
           get_amount (feerate_e s') =
             (if is_send_feerate_frozen s then get_amount (feerate_e s) else None) \<and>
           \<not> feerounding_visible s'"
  unfolding update_fee_fields_banner_eq [OF assms]
  by (auto simp: clear_unfrozen_def Let_def setAmount_def get_amount_def split: option.splits)

text \<open>
  The amended C6 at the dialog of the counterexample: the frozen fee stays, the feerate
  field, which is not frozen, is cleared.
\<close>

theorem update_fee_fields_banner_witness:
  "not_enough_funds broke_dialog \<and>
   is_send_fee_frozen broke_dialog \<and> \<not> is_send_feerate_frozen broke_dialog \<and>
   (\<exists>s'. update_fee_fields (quantize_dp 1) broke_dialog = Inr (s', None) \<and>
      get_amount (fee_e s') = Some 1000 \<and> get_amount (feerate_e s') = None \<and>
      \<not> feerounding_visible s')"
  using update_fee_fields_banner [of broke_dialog "quantize_dp 1"] broke_dialog_facts
  by auto

subsection \<open>C7: the rounding delta\<close>

text \<open>
  C7, as stated: the rounding delta is \<^verbatim>\<open>actual_fee - displayed_fee\<close>, zero if either is
  null, and the indicator is shown iff its absolute value is at least 1. This fails for an
  actual fee of 0: line 345 tests \<^verbatim>\<open>fee\<close> for truth, so with a feerate frozen at 1 and a
  transaction of 100 bytes that pays no fee, the displayed fee is 100, the delta of the
  claim is -100, and the code's delta is 0 with the indicator hidden.
\<close>

theorem update_fee_fields_feerounding_counterexample:
  "tx zero_fee_dialog = Some \<lparr>estimated_size = 100, get_fee = Some 0, rbf = True\<rparr> \<and>
   quote_of (update_fee_fields (quantize_dp 1) zero_fee_dialog) =
     Some \<lparr>displayed_fee = Some 100, displayed_feerate = Some 1, quote_size = 100, feerounding = 0\<rparr> \<and>
   claimed_feerounding (Some 0) (Some 100) = - 100 \<and>
   map_option feerounding_visible (dialog_of (update_fee_fields (quantize_dp 1) zero_fee_dialog))
     = Some False"
proof -
  have "claimed_feerounding (Some 0) (Some 100) = - 100"
    by (simp add: claimed_feerounding_def)
  with zero_fee_dialog_quote zero_fee_dialog_icon zero_fee_dialog_facts(1)
  show ?thesis by blast
qed

text \<open>
  C7, amended: for every recompute over a successful build, the rounding delta is
  \<^verbatim>\<open>actual_fee - displayed_fee\<close> when the actual fee is neither null nor zero and the
  displayed fee is not null, and zero otherwise; the indicator is shown iff the absolute
  value of the delta is at least 1.
\<close>

theorem update_fee_fields_feerounding:
  assumes "tx s = Some t" and "0 < estimated_size t"
    and "\<not> not_enough_funds s" and "\<not> no_dynfee_estimates s"
  shows "\<exists>s' q. update_fee_fields quantize_feerate s = Inr (s', Some q) \<and>
           feerounding q =
             (if get_fee t = Some 0 then 0 else claimed_feerounding (get_fee t) (displayed_fee q)) \<and>
           feerounding_num s' = feerounding q \<and>
           feerounding_visible s' = (\<bar>feerounding q\<bar> \<ge> 1)"
proof -
  have fr: "feerounding_of (get_fee t) d =
      (if get_fee t = Some 0 then 0 else claimed_feerounding (get_fee t) d)" for d
    by (simp add: feerounding_of_def claimed_feerounding_def split: option.splits)
  show ?thesis
  proof (cases "is_send_feerate_frozen s \<or> slider_active s")
    case True
    obtain s2 dfr where
      "feerate_branch quantize_feerate (estimated_size t) (get_fee t)
         (s\<lparr>size_label := estimated_size t\<rparr>)
         = Inr (s2, map_option (\<lambda>r. py_round (r * of_nat (estimated_size t))) dfr, dfr)"
      using feerate_branch_ok [OF assms(2)] by blast
    with True assms show ?thesis
      by (simp add: update_fee_fields_build fr)
  next
    case False
    obtain s2 f where
      "fee_branch quantize_feerate (is_send_fee_frozen s) (estimated_size t) (get_fee t)
         (s\<lparr>size_label := estimated_size t\<rparr>)
         = Inr (s2, Some f, Some (quantize_feerate (of_int f / of_nat (estimated_size t))))"
      using fee_branch_ok [OF assms(2)] by blast
    with False assms show ?thesis
      by (simp add: update_fee_fields_build fr)
  qed
qed

text \<open>The amended C7 at the dialog with the fee frozen at 1000 and 226 bytes.\<close>

theorem update_fee_fields_feerounding_witness:
  "tx fee_frozen_dialog = Some \<lparr>estimated_size = 226, get_fee = Some 1000, rbf = True\<rparr> \<and>
   \<not> not_enough_funds fee_frozen_dialog \<and> \<not> no_dynfee_estimates fee_frozen_dialog \<and>
   (\<exists>s' q. update_fee_fields (quantize_dp 1) fee_frozen_dialog = Inr (s', Some q) \<and>
      feerounding q = claimed_feerounding (Some 1000) (displayed_fee q) \<and>
      feerounding_num s' = feerounding q \<and>
      feerounding_visible s' = (\<bar>feerounding q\<bar> \<ge> 1))"
  using update_fee_fields_feerounding [of fee_frozen_dialog
          "\<lparr>estimated_size = 226, get_fee = Some 1000, rbf = True\<rparr>" "quantize_dp 1"]
    fee_frozen_dialog_facts
  by auto

subsection \<open>C8: at most one field is frozen\<close>

text \<open>
  C8: from a dialog in which not both line edits are modified (a new dialog is one), after
  every sequence of edit events at most one of the two fields is frozen. Typing into one
  field clears the modified flag of the other, so from a frozen fee, typing a feerate and
  committing it ends in \<open>FEERATE_FROZEN\<close>; and committing a frozen field whose value is
  null clears its own flag and ends in \<open>AUTO\<close>.
\<close>

theorem edits_freeze_at_most_one:
  assumes "\<not> (modified (fee_e s) \<and> modified (feerate_e s))"
  shows "\<not> (is_send_fee_frozen (handle_events es s) \<and> is_send_feerate_frozen (handle_events es s)) \<and>
         \<not> modified (feerate_e (handle_event (FeeTextEdited c) s)) \<and>
         \<not> modified (fee_e (handle_event (FeerateTextEdited c') s)) \<and>
         (is_send_fee_frozen s \<and> visible (feerate_e s) \<longrightarrow>
            mode (handle_events [FeerateTextEdited (Amount r), EditingFinished FeerateField] s)
              = FEERATE_FROZEN) \<and>
         (is_send_fee_frozen s \<and> get_amount (fee_e s) = None \<longrightarrow>
            mode (handle_event (EditingFinished FeeField) s) = AUTO) \<and>
         (is_send_feerate_frozen s \<and> get_amount (feerate_e s) = None \<longrightarrow>
            mode (handle_event (EditingFinished FeerateField) s) = AUTO)"
proof -
  have a: "\<not> (is_send_fee_frozen (handle_events es s) \<and> is_send_feerate_frozen (handle_events es s))"
    using handle_events_keep_one_modified [OF assms, of es]
    by (auto simp: is_send_fee_frozen_def is_send_feerate_frozen_def)
  have b: "\<not> modified (feerate_e (handle_event (FeeTextEdited c) s))"
          "\<not> modified (fee_e (handle_event (FeerateTextEdited c') s))"
    by (simp_all add: on_fee_or_feerate_edit setModified_def)
  have c: "mode (handle_events [FeerateTextEdited (Amount r), EditingFinished FeerateField] s)
             = FEERATE_FROZEN"
    if "visible (feerate_e s)"
    using that
    by (simp add: mode_def is_send_fee_frozen_def is_send_feerate_frozen_def on_fee_or_feerate_edit
          on_fee_or_feerate_commit setModified_def entry_changed_def user_types_def get_amount_def
          text_nonempty_def)
  have d: "mode (handle_event (EditingFinished FeeField) s) = AUTO"
    if "is_send_fee_frozen s" "get_amount (fee_e s) = None"
    using that assms
    by (auto simp: mode_def is_send_fee_frozen_def is_send_feerate_frozen_def
          on_fee_or_feerate_commit setModified_def)
  have e: "mode (handle_event (EditingFinished FeerateField) s) = AUTO"
    if "is_send_feerate_frozen s" "get_amount (feerate_e s) = None"
    using that assms
    by (auto simp: mode_def is_send_fee_frozen_def is_send_feerate_frozen_def
          on_fee_or_feerate_commit setModified_def)
  from a b c d e show ?thesis by blast
qed

text \<open>
  C8 at two dialogs: a typed fee of 1000, after which a feerate of 5 is typed and
  committed; and a fee typed and deleted again, which is then committed.
\<close>

theorem edits_freeze_at_most_one_witness:
  "\<not> (modified (fee_e fee_typed_dialog) \<and> modified (feerate_e fee_typed_dialog)) \<and>
   is_send_fee_frozen fee_typed_dialog \<and> visible (feerate_e fee_typed_dialog) \<and>
   mode fee_typed_dialog = FEE_FROZEN \<and>
   mode (handle_events [FeerateTextEdited (Amount 5), EditingFinished FeerateField] fee_typed_dialog)
     = FEERATE_FROZEN \<and>
   \<not> (is_send_fee_frozen
          (handle_events [FeerateTextEdited (Amount 5), EditingFinished FeerateField] fee_typed_dialog) \<and>
        is_send_feerate_frozen
          (handle_events [FeerateTextEdited (Amount 5), EditingFinished FeerateField] fee_typed_dialog)) \<and>
   \<not> (modified (fee_e fee_blanked_dialog) \<and> modified (feerate_e fee_blanked_dialog)) \<and>
   is_send_fee_frozen fee_blanked_dialog \<and> get_amount (fee_e fee_blanked_dialog) = None \<and>
   mode (handle_event (EditingFinished FeeField) fee_blanked_dialog) = AUTO"
  using
    edits_freeze_at_most_one [OF fee_typed_dialog_facts(1),
      of "[FeerateTextEdited (Amount 5), EditingFinished FeerateField]" Blank Blank 5]
    edits_freeze_at_most_one [OF fee_blanked_dialog_facts(1), of "[]" Blank Blank 0]
    fee_typed_dialog_facts fee_blanked_dialog_facts
  by simp

subsection \<open>C9: what \<open>run\<close> returns\<close>

text \<open>
  C9: \<^verbatim>\<open>run\<close> returns the transaction the dialog holds when the event loop ends if the
  dialog was accepted, and \<^verbatim>\<open>None\<close> if it was cancelled.
\<close>

theorem run_returns_tx_iff_accepted:
  "(exec s = (True, s1) \<longrightarrow> fst (run exec s) = tx s1) \<and>
   (exec s = (False, s1) \<longrightarrow> fst (run exec s) = None)"
proof (intro conjI impI)
  assume "exec s = (True, s1)"
  then show "fst (run exec s) = tx s1"
    by (simp add: run_def stop_editor_updates_def)
next
  assume "exec s = (False, s1)"
  then show "fst (run exec s) = None"
    by (simp add: run_def)
qed

text \<open>
  C9 at two event loops: one that builds the transaction for a typed fee and is accepted,
  and one that is cancelled while the dialog holds that transaction.
\<close>

theorem run_returns_tx_iff_accepted_witness:
  "(\<lambda>s. (True, snd (update_tx
        (make_tx_script [Inr \<lparr>estimated_size = 226, get_fee = Some 1000, rbf = False\<rparr>])
        False s))) fee_typed_dialog = (True, fee_frozen_dialog) \<and>
   fst (run (\<lambda>s. (True, snd (update_tx
        (make_tx_script [Inr \<lparr>estimated_size = 226, get_fee = Some 1000, rbf = False\<rparr>])
        False s))) fee_typed_dialog)
     = Some \<lparr>estimated_size = 226, get_fee = Some 1000, rbf = True\<rparr> \<and>
   (\<lambda>s. (False, s)) fee_frozen_dialog = (False, fee_frozen_dialog) \<and>
   fst (run (\<lambda>s. (False, s)) fee_frozen_dialog) = None"
proof -
  let ?accept = "\<lambda>s. (True, snd (update_tx
        (make_tx_script [Inr \<lparr>estimated_size = 226, get_fee = Some 1000, rbf = False\<rparr>])
        False s))"
  let ?cancel = "\<lambda>s::nat dialog. (False, s)"
  have a: "?accept fee_typed_dialog = (True, fee_frozen_dialog)"
    by (simp add: fee_frozen_dialog_def)
  have c: "?cancel fee_frozen_dialog = (False, fee_frozen_dialog)"
    by simp
  from run_returns_tx_iff_accepted [of ?accept fee_typed_dialog fee_frozen_dialog]
    run_returns_tx_iff_accepted [of ?cancel fee_frozen_dialog fee_frozen_dialog]
    a c fee_frozen_dialog_facts(1)
  show ?thesis by simp
qed

subsection \<open>C10: replace-by-fee\<close>

text \<open>
  C10: whenever \<^verbatim>\<open>update_tx\<close> raises nothing and leaves a transaction, from the first call
  of \<^verbatim>\<open>make_tx\<close> or from a zero-fee retry, that transaction has its replace-by-fee flag
  set.
\<close>

theorem update_tx_sets_rbf:
  assumes "update_tx mk fallback_to_zero_fee s = (None, s')" and "tx s' = Some t"
  shows "rbf t"
proof (cases "mk (get_fee_estimator s) (world s)")
  case (Pair r w)
  note call = call_make_tx_eq [of mk "get_fee_estimator s" s r w, OF Pair]
  show ?thesis
  proof (cases r)
    case (Inr t0)
    with assms call show ?thesis
      by (auto simp: update_tx_def dest: set_rbf_of_tx_rbf)
  next
    case (Inl e)
    show ?thesis
    proof (cases e)
      case NotEnoughFunds
      with assms call Inl show ?thesis
        by (auto simp: update_tx_def Let_def split: if_splits dest: zero_fee_retry_nef_rbf)
    next
      case NoDynamicFeeEstimates
      with assms call Inl show ?thesis
        by (auto simp: update_tx_def dest: zero_fee_retry_nodyn_rbf)
    next
      case (InternalAddressCorruption m)
      with assms call Inl show ?thesis by (simp add: update_tx_def)
    next
      case (OtherException m)
      with assms call Inl show ?thesis by (simp add: update_tx_def)
    qed
  qed
qed

text \<open>
  C10 at a new dialog: no fee estimates, and the retry with a zero fee succeeds with a
  transaction whose flag the builder had left unset.
\<close>

theorem update_tx_sets_rbf_witness:
  "update_tx (make_tx_script [Inl NoDynamicFeeEstimates,
        Inr \<lparr>estimated_size = 226, get_fee = Some 0, rbf = False\<rparr>]) False
      (new_dialog True None True (0::nat)) =
     (None, (new_dialog True None True (0::nat))
        \<lparr>tx := Some \<lparr>estimated_size = 226, get_fee = Some 0, rbf = True\<rparr>,
         no_dynfee_estimates := True, world := 2, make_tx_calls := [None, Some (FixedFee 0)]\<rparr>) \<and>
   rbf \<lparr>estimated_size = 226, get_fee = Some 0, rbf = True\<rparr>"
proof -
  let ?mk = "make_tx_script [Inl NoDynamicFeeEstimates,
        Inr \<lparr>estimated_size = 226, get_fee = Some 0, rbf = False\<rparr>]"
  let ?s = "new_dialog True None True (0::nat)"
  let ?s' = "?s\<lparr>tx := Some \<lparr>estimated_size = 226, get_fee = Some 0, rbf = True\<rparr>,
        no_dynfee_estimates := True, world := 2, make_tx_calls := [None, Some (FixedFee 0)]\<rparr>"
  have run: "update_tx ?mk False ?s = (None, ?s')"
    by (simp add: example_defs)
  have t: "tx ?s' = Some \<lparr>estimated_size = 226, get_fee = Some 0, rbf = True\<rparr>"
    by simp
  from update_tx_sets_rbf [OF run t] run show ?thesis by simp
qed

end
